theory Spec2Isabelle
  imports Main "HOL-Library.Word"
begin

unbundle bit_operations_syntax

section \<open>Types and values a shared\_var can be asked about\<close>

text \<open>
  \<^verbatim>\<open>shared_var\<close> is a class with member templates: every \<^verbatim>\<open>T\<close> gets its own
  \<^verbatim>\<open>holder<T>\<close>. The model fixes a universe of C++ types, the ones the header and its
  unit tests name (\<^verbatim>\<open>int\<close>, \<^verbatim>\<open>double\<close>, \<^verbatim>\<open>std::string\<close>, \<^verbatim>\<open>std::wstring\<close>,
  \<^verbatim>\<open>std::vector<bool>\<close>, \<^verbatim>\<open>nullptr_t\<close>) together with \<^verbatim>\<open>bool\<close>, \<^verbatim>\<open>char\<close> and
  the pointer type \<^verbatim>\<open>const char *\<close>. A value carries its type as its constructor, the
  way the vtable of a \<^verbatim>\<open>holder<T>\<close> does. All of these are unqualified object types,
  on which \<^verbatim>\<open>std::decay\<close> is the identity.

  An \<^verbatim>\<open>int\<close> is a 32-bit word, a \<^verbatim>\<open>wchar_t\<close> a 16-bit word (the header uses
  \<^verbatim>\<open>std::_Is_nullptr_t\<close>, so the compiler is MSVC), a \<^verbatim>\<open>double\<close> is its IEEE-754
  binary64 bit pattern, a pointer is an address with 0 for the null pointer.
\<close>

type_synonym wchar = "16 word"

datatype ty =
    TNullptr | TCharPtr | TBool | TChar | TInt | TDouble | TString | TWString | TVectorBool

datatype val =
    VNullptr
  | VCharPtr nat
  | VBool bool
  | VChar char
  | VInt "32 word"
  | VDouble "64 word"
  | VString "char list"
  | VWString "wchar list"
  | VVectorBool "bool list"

fun type_of :: "val \<Rightarrow> ty" where
  "type_of VNullptr = TNullptr"
| "type_of (VCharPtr _) = TCharPtr"
| "type_of (VBool _) = TBool"
| "type_of (VChar _) = TChar"
| "type_of (VInt _) = TInt"
| "type_of (VDouble _) = TDouble"
| "type_of (VString _) = TString"
| "type_of (VWString _) = TWString"
| "type_of (VVectorBool _) = TVectorBool"

text \<open>\<^verbatim>\<open>T()\<close>, the value-initialised \<^verbatim>\<open>T\<close> that \<^verbatim>\<open>as<T>()\<close> keeps in a function-local static.\<close>

fun default_value :: "ty \<Rightarrow> val" where
  "default_value TNullptr = VNullptr"
| "default_value TCharPtr = VCharPtr 0"
| "default_value TBool = VBool False"
| "default_value TChar = VChar (CHR 0x00)"
| "default_value TInt = VInt 0"
| "default_value TDouble = VDouble 0"
| "default_value TString = VString []"
| "default_value TWString = VWString []"
| "default_value TVectorBool = VVectorBool []"

text \<open>
  \<^verbatim>\<open>enable_if_holdable<T>\<close> (lines 39-46): \<^verbatim>\<open>T\<close> is not \<^verbatim>\<open>shared_var\<close>, not
  \<^verbatim>\<open>nullptr_t\<close>, not a pointer, not an array, not const, not a reference. Of the
  modelled types the second and third conditions exclude \<^verbatim>\<open>nullptr_t\<close> and the pointer;
  the other four conditions hold of every modelled type.
\<close>

fun is_pointer :: "ty \<Rightarrow> bool" where
  "is_pointer TCharPtr = True"
| "is_pointer _ = False"

definition enable_if_holdable :: "ty \<Rightarrow> bool" where
  "enable_if_holdable t = (t \<noteq> TNullptr \<and> \<not> is_pointer t)"

subsection \<open>The built-in equality of each type\<close>

text \<open>
  \<^verbatim>\<open>==\<close> on two \<^verbatim>\<open>double\<close>s is the IEEE-754 comparison: a NaN (exponent bits all
  set, fraction not zero) is unequal to everything, itself included; the two zeros are
  equal; any other two doubles are equal exactly when their bit patterns are.
\<close>

definition is_nan :: "64 word \<Rightarrow> bool" where
  "is_nan x = (x AND 0x7FF0000000000000 = 0x7FF0000000000000 \<and> x AND 0x000FFFFFFFFFFFFF \<noteq> 0)"

definition is_zero :: "64 word \<Rightarrow> bool" where
  "is_zero x = (x AND 0x7FFFFFFFFFFFFFFF = 0)"

definition double_eq :: "64 word \<Rightarrow> 64 word \<Rightarrow> bool" where
  "double_eq a b =
     (if is_nan a \<or> is_nan b then False
      else if is_zero a \<and> is_zero b then True
      else a = b)"

text \<open>
  \<^verbatim>\<open>a == b\<close> for two values of one type \<^verbatim>\<open>T\<close>, which is all the header ever evaluates
  (after a successful \<^verbatim>\<open>dynamic_cast\<close>). The last equation is never reached from it.
  The header calls whatever \<^verbatim>\<open>==\<close> the type \<^verbatim>\<open>T\<close> brings, reflexive or not; what is
  stated below about a comparison is therefore stated through \<open>value_eq\<close>, never through
  a list of the values at which it happens to fail among these types.
\<close>

fun value_eq :: "val \<Rightarrow> val \<Rightarrow> bool" where
  "value_eq VNullptr VNullptr = True"
| "value_eq (VCharPtr a) (VCharPtr b) = (a = b)"
| "value_eq (VBool a) (VBool b) = (a = b)"
| "value_eq (VChar a) (VChar b) = (a = b)"
| "value_eq (VInt a) (VInt b) = (a = b)"
| "value_eq (VDouble a) (VDouble b) = double_eq a b"
| "value_eq (VString a) (VString b) = (a = b)"
| "value_eq (VWString a) (VWString b) = (a = b)"
| "value_eq (VVectorBool a) (VVectorBool b) = (a = b)"
| "value_eq _ _ = False"

subsection \<open>C-strings\<close>

text \<open>
  \<^verbatim>\<open>enable_if_char<CharT>\<close> (lines 34-37) admits \<^verbatim>\<open>char\<close> and \<^verbatim>\<open>wchar_t\<close>. A
  \<^verbatim>\<open>const CharT *\<close> argument is modelled by the characters found from the pointer on;
  \<^verbatim>\<open>std::basic_string<CharT>(rhs)\<close> copies them up to the first zero character.
\<close>

datatype c_str = Narrow "char list" | Wide "wchar list"

fun basic_string :: "c_str \<Rightarrow> val" where
  "basic_string (Narrow s) = VString (takeWhile (\<lambda>c. c \<noteq> CHR 0x00) s)"
| "basic_string (Wide s) = VWString (takeWhile (\<lambda>c. c \<noteq> 0) s)"

section \<open>Erased cells, the heap and handles\<close>

text \<open>
  \<^verbatim>\<open>holder<T>\<close> (lines 56-76) has the one field \<^verbatim>\<open>value_\<close>; its \<^verbatim>\<open>T\<close> is the type of
  that value. \<^verbatim>\<open>std::make_shared\<close> puts a holder on the heap beside a use count;
  copying a \<^verbatim>\<open>std::shared_ptr\<close> adds one to the count, destroying or overwriting one
  takes one off and deletes the holder when the count reaches zero. Addresses are handed
  out in increasing order and not reused. The handle itself is the field \<^verbatim>\<open>p_\<close>
  (line 78), a null or non-null pointer.
\<close>

type_synonym addr = nat

datatype holder = Holder (holder_value: val)

record control_block =
  obj :: holder
  use_count :: nat

record heap =
  cells :: "addr \<rightharpoonup> control_block"
  next_free :: addr

record shared_var =
  ptr :: "addr option"

definition make_shared :: "val \<Rightarrow> heap \<Rightarrow> addr \<times> heap" where
  "make_shared v h =
     (next_free h,
      h\<lparr>cells := (cells h)(next_free h \<mapsto> \<lparr>obj = Holder v, use_count = 1\<rparr>),
        next_free := next_free h + 1\<rparr>)"

definition acquire :: "addr option \<Rightarrow> heap \<Rightarrow> heap" where
  "acquire p h =
     (case p of
        None \<Rightarrow> h
      | Some a \<Rightarrow>
          (case cells h a of
             None \<Rightarrow> h
           | Some cb \<Rightarrow> h\<lparr>cells := (cells h)(a \<mapsto> cb\<lparr>use_count := use_count cb + 1\<rparr>)\<rparr>))"

definition release :: "addr option \<Rightarrow> heap \<Rightarrow> heap" where
  "release p h =
     (case p of
        None \<Rightarrow> h
      | Some a \<Rightarrow>
          (case cells h a of
             None \<Rightarrow> h
           | Some cb \<Rightarrow>
               if use_count cb \<le> 1 then h\<lparr>cells := (cells h)(a := None)\<rparr>
               else h\<lparr>cells := (cells h)(a \<mapsto> cb\<lparr>use_count := use_count cb - 1\<rparr>)\<rparr>))"

text \<open>
  Undefined behaviour is reported as an error instead of an invented value. Reading
  through a pointer whose holder is gone is one kind; a \<^verbatim>\<open>std::shared_ptr\<close> never lets
  it happen. Reaching the closing brace of a function that is declared to return a value,
  with no return statement executed, is the other.
\<close>

datatype error = DanglingPointer | MissingReturn

text \<open>
  \<^verbatim>\<open>dynamic_cast<const holder<T> *>(p)\<close>: null for a null \<^verbatim>\<open>p\<close>, the same pointer when
  the object is a \<^verbatim>\<open>holder<T>\<close>, null otherwise. The result carries the holder found.
\<close>

definition dynamic_cast :: "ty \<Rightarrow> addr option \<Rightarrow> heap \<Rightarrow> error + holder option" where
  "dynamic_cast t p h =
     (case p of
        None \<Rightarrow> Inr None
      | Some a \<Rightarrow>
          (case cells h a of
             None \<Rightarrow> Inl DanglingPointer
           | Some cb \<Rightarrow>
               Inr (if type_of (holder_value (obj cb)) = t then Some (obj cb) else None)))"

text \<open>\<^verbatim>\<open>holder<T>::equals\<close> (lines 69-75), with \<^verbatim>\<open>T\<close> the type of the receiver's value.\<close>

definition holder_equals :: "holder \<Rightarrow> addr option \<Rightarrow> heap \<Rightarrow> error + bool" where
  "holder_equals this rhs h =
     (case dynamic_cast (type_of (holder_value this)) rhs h of
        Inl e \<Rightarrow> Inl e
      | Inr None \<Rightarrow> Inr False
      | Inr (Some rhs_downcast) \<Rightarrow>
          Inr (value_eq (holder_value rhs_downcast) (holder_value this)))"

section \<open>Member functions of shared\_var\<close>

text \<open>
  Isabelle names cannot start or end with an underscore: \<^verbatim>\<open>p_\<close> is \<open>ptr\<close>, \<^verbatim>\<open>value_\<close> is
  \<open>holder_value\<close>, and the members \<^verbatim>\<open>_hold\<close>, \<^verbatim>\<open>_equals\<close>, \<^verbatim>\<open>_equals_val\<close>, \<^verbatim>\<open>as\<close>,
  \<^verbatim>\<open>is\<close>, \<^verbatim>\<open>empty\<close> carry the prefix \<open>sv_\<close>. A member function takes the receiver
  \<open>this\<close> and the heap last; one that changes the receiver returns it with the new heap.
\<close>

text \<open>\<^verbatim>\<open>_hold\<close> (lines 80-83): the new holder is made first, then \<^verbatim>\<open>p_\<close> lets go of its old one.\<close>

definition sv_hold :: "val \<Rightarrow> shared_var \<Rightarrow> heap \<Rightarrow> shared_var \<times> heap" where
  "sv_hold val this h =
     (let (a, h1) = make_shared val h
      in (this\<lparr>ptr := Some a\<rparr>, release (ptr this) h1))"

text \<open>\<^verbatim>\<open>_equals\<close> (lines 86-94).\<close>

definition sv_equals :: "shared_var \<Rightarrow> shared_var \<Rightarrow> heap \<Rightarrow> error + bool" where
  "sv_equals this rhs h =
     (case (ptr this, ptr rhs) of
        (None, None) \<Rightarrow> Inr True
      | (Some a, Some b) \<Rightarrow>
          (case cells h a of
             None \<Rightarrow> Inl DanglingPointer
           | Some cb \<Rightarrow> holder_equals (obj cb) (Some b) h)
      | _ \<Rightarrow> Inr False)"

text \<open>\<^verbatim>\<open>_equals_val\<close> (lines 96-108), with \<^verbatim>\<open>T\<close> the type of \<open>rhs\<close>.\<close>

definition sv_equals_val :: "shared_var \<Rightarrow> val \<Rightarrow> heap \<Rightarrow> error + bool" where
  "sv_equals_val this rhs h =
     (if ptr this = None then Inr False
      else
        (case dynamic_cast (type_of rhs) (ptr this) h of
           Inl e \<Rightarrow> Inl e
         | Inr None \<Rightarrow> Inr False
         | Inr (Some p_downcast) \<Rightarrow> Inr (value_eq (holder_value p_downcast) rhs)))"

section \<open>Constructors\<close>

text \<open>
  A constructor starts from a null \<^verbatim>\<open>p_\<close> and returns the new handle with the heap.
  The templates guarded by \<^verbatim>\<open>enable_if_holdable\<close> exist for holdable \<^verbatim>\<open>T\<close> only;
  what is stated about them below assumes \<open>enable_if_holdable (type_of val)\<close>.
\<close>

text \<open>\<^verbatim>\<open>shared_var()\<close> (lines 110-111) and \<^verbatim>\<open>explicit shared_var(nullptr_t)\<close> (lines 133-135).\<close>

definition sv_ctor_default :: shared_var where
  "sv_ctor_default = \<lparr>ptr = None\<rparr>"

definition sv_ctor_null :: shared_var where
  "sv_ctor_null = \<lparr>ptr = None\<rparr>"

text \<open>\<^verbatim>\<open>shared_var(const shared_var& rhs)\<close> (lines 115-117).\<close>

definition sv_ctor_copy :: "shared_var \<Rightarrow> heap \<Rightarrow> shared_var \<times> heap" where
  "sv_ctor_copy rhs h = (\<lparr>ptr = ptr rhs\<rparr>, acquire (ptr rhs) h)"

text \<open>
  \<^verbatim>\<open>shared_var(shared_var&& val)\<close> (lines 119-121) swaps its null \<^verbatim>\<open>p_\<close> with the
  argument's; the result is the new handle and the argument afterwards.
\<close>

definition sv_ctor_move :: "shared_var \<Rightarrow> shared_var \<times> shared_var" where
  "sv_ctor_move val = (\<lparr>ptr = ptr val\<rparr>, val\<lparr>ptr := None\<rparr>)"

text \<open>\<^verbatim>\<open>explicit shared_var(const CharT * rhs)\<close> (lines 143-146).\<close>

definition sv_ctor_cstr :: "c_str \<Rightarrow> heap \<Rightarrow> shared_var \<times> heap" where
  "sv_ctor_cstr rhs h = sv_hold (basic_string rhs) \<lparr>ptr = None\<rparr> h"

text \<open>
  \<^verbatim>\<open>explicit shared_var(const T& val)\<close> (lines 155-158) holds a copy \<^verbatim>\<open>T(val)\<close>,
  \<^verbatim>\<open>explicit shared_var(T&& val)\<close> (lines 160-163) holds the moved value.
\<close>

definition sv_ctor_val_copy :: "val \<Rightarrow> heap \<Rightarrow> shared_var \<times> heap" where
  "sv_ctor_val_copy val h = sv_hold val \<lparr>ptr = None\<rparr> h"

definition sv_ctor_val_move :: "val \<Rightarrow> heap \<Rightarrow> shared_var \<times> heap" where
  "sv_ctor_val_move val h = sv_hold val \<lparr>ptr = None\<rparr> h"

section \<open>Assignment operators\<close>

text \<open>
  Every \<^verbatim>\<open>operator=\<close> is declared to return \<^verbatim>\<open>shared_var&\<close>. The outcome of a call
  that returns is the receiver afterwards, the heap afterwards, and what the returned
  reference designates: \<open>Some\<close> of the receiver for \<^verbatim>\<open>return *this;\<close>.
\<close>

record assign_outcome =
  this_after :: shared_var
  heap_after :: heap
  returned :: "shared_var option"

text \<open>\<^verbatim>\<open>operator=(const shared_var& rhs)\<close> (lines 123-126).\<close>

definition sv_assign_copy :: "shared_var \<Rightarrow> shared_var \<Rightarrow> heap \<Rightarrow> assign_outcome" where
  "sv_assign_copy rhs this h =
     (let this' = this\<lparr>ptr := ptr rhs\<rparr>
      in \<lparr>this_after = this',
          heap_after = release (ptr this) (acquire (ptr rhs) h),
          returned = Some this'\<rparr>)"

text \<open>
  \<^verbatim>\<open>operator=(shared_var&& rhs)\<close> (lines 128-131): \<^verbatim>\<open>p_.swap(rhs.p_)\<close>. The argument
  afterwards is part of the outcome.
\<close>

record move_outcome = assign_outcome +
  rhs_after :: shared_var

definition sv_assign_move :: "shared_var \<Rightarrow> shared_var \<Rightarrow> heap \<Rightarrow> move_outcome" where
  "sv_assign_move rhs this h =
     (let this' = this\<lparr>ptr := ptr rhs\<rparr>
      in \<lparr>this_after = this',
          heap_after = h,
          returned = Some this',
          rhs_after = rhs\<lparr>ptr := ptr this\<rparr>\<rparr>)"

text \<open>\<^verbatim>\<open>operator=(nullptr_t)\<close> (lines 137-140).\<close>

definition sv_assign_null :: "shared_var \<Rightarrow> heap \<Rightarrow> assign_outcome" where
  "sv_assign_null this h =
     (let this' = this\<lparr>ptr := None\<rparr>
      in \<lparr>this_after = this',
          heap_after = release (ptr this) h,
          returned = Some this'\<rparr>)"

text \<open>\<^verbatim>\<open>operator=(const CharT * rhs)\<close> (lines 148-152).\<close>

definition sv_assign_cstr :: "c_str \<Rightarrow> shared_var \<Rightarrow> heap \<Rightarrow> assign_outcome" where
  "sv_assign_cstr rhs this h =
     (let (this', h') = sv_hold (basic_string rhs) this h
      in \<lparr>this_after = this', heap_after = h', returned = Some this'\<rparr>)"

text \<open>
  \<^verbatim>\<open>operator=(const T& rhs)\<close> (lines 165-168): the body is \<^verbatim>\<open>_hold(T(rhs));\<close> and
  nothing else. Control reaches the closing brace after the call of \<^verbatim>\<open>_hold\<close>, so the
  behaviour of the whole call is undefined: there is no receiver, heap or result
  afterwards that the code guarantees.
\<close>

definition sv_assign_val_copy :: "val \<Rightarrow> shared_var \<Rightarrow> heap \<Rightarrow> error + assign_outcome" where
  "sv_assign_val_copy rhs this h =
     (let (this', h') = sv_hold rhs this h
      in Inl MissingReturn)"

text \<open>\<^verbatim>\<open>operator=(T&& rhs)\<close> (lines 170-174).\<close>

definition sv_assign_val_move :: "val \<Rightarrow> shared_var \<Rightarrow> heap \<Rightarrow> assign_outcome" where
  "sv_assign_val_move rhs this h =
     (let (this', h') = sv_hold rhs this h
      in \<lparr>this_after = this', heap_after = h', returned = Some this'\<rparr>)"

section \<open>as, is, empty\<close>

text \<open>\<^verbatim>\<open>as<T>()\<close> (lines 179-187).\<close>

definition sv_as :: "ty \<Rightarrow> shared_var \<Rightarrow> heap \<Rightarrow> error + val" where
  "sv_as t this h =
     (case dynamic_cast t (ptr this) h of
        Inl e \<Rightarrow> Inl e
      | Inr (Some p_downcast) \<Rightarrow> Inr (holder_value p_downcast)
      | Inr None \<Rightarrow> Inr (default_value t))"

text \<open>\<^verbatim>\<open>as<T>(const T& def)\<close> (lines 189-196), with \<^verbatim>\<open>T\<close> the type of \<open>def\<close>.\<close>

definition sv_as_def :: "val \<Rightarrow> shared_var \<Rightarrow> heap \<Rightarrow> error + val" where
  "sv_as_def def this h =
     (case dynamic_cast (type_of def) (ptr this) h of
        Inl e \<Rightarrow> Inl e
      | Inr (Some p_downcast) \<Rightarrow> Inr (holder_value p_downcast)
      | Inr None \<Rightarrow> Inr def)"

text \<open>\<^verbatim>\<open>is<T>()\<close> (lines 198-205).\<close>

definition sv_is :: "ty \<Rightarrow> shared_var \<Rightarrow> heap \<Rightarrow> error + bool" where
  "sv_is t this h =
     (if t = TNullptr then Inr (ptr this = None)
      else
        (case dynamic_cast t (ptr this) h of
           Inl e \<Rightarrow> Inl e
         | Inr p \<Rightarrow> Inr (p \<noteq> None)))"

text \<open>\<^verbatim>\<open>empty()\<close> (lines 207-209).\<close>

definition sv_empty :: "shared_var \<Rightarrow> bool" where
  "sv_empty this = (ptr this = None)"

section \<open>The free comparison operators\<close>

text \<open>\<^verbatim>\<open>!\<close> applied to the result of a call.\<close>

fun negate :: "error + bool \<Rightarrow> error + bool" where
  "negate (Inl e) = Inl e"
| "negate (Inr b) = Inr (\<not> b)"

text \<open>Handle against handle (lines 212-218).\<close>

definition operator_eq :: "shared_var \<Rightarrow> shared_var \<Rightarrow> heap \<Rightarrow> error + bool" where
  "operator_eq lhs rhs h = sv_equals lhs rhs h"

definition operator_ne :: "shared_var \<Rightarrow> shared_var \<Rightarrow> heap \<Rightarrow> error + bool" where
  "operator_ne lhs rhs h = negate (sv_equals lhs rhs h)"

text \<open>Handle against a holdable value, in both orders (lines 223-242).\<close>

definition operator_eq_val :: "shared_var \<Rightarrow> val \<Rightarrow> heap \<Rightarrow> error + bool" where
  "operator_eq_val lhs rhs h = sv_equals_val lhs rhs h"

definition operator_ne_val :: "shared_var \<Rightarrow> val \<Rightarrow> heap \<Rightarrow> error + bool" where
  "operator_ne_val lhs rhs h = negate (sv_equals_val lhs rhs h)"

definition val_operator_eq :: "val \<Rightarrow> shared_var \<Rightarrow> heap \<Rightarrow> error + bool" where
  "val_operator_eq lhs rhs h = sv_equals_val rhs lhs h"

definition val_operator_ne :: "val \<Rightarrow> shared_var \<Rightarrow> heap \<Rightarrow> error + bool" where
  "val_operator_ne lhs rhs h = negate (sv_equals_val rhs lhs h)"

text \<open>Handle against \<^verbatim>\<open>nullptr\<close>, in both orders (lines 246-260).\<close>

definition null_operator_eq :: "shared_var \<Rightarrow> bool" where
  "null_operator_eq rhs = sv_empty rhs"

definition operator_eq_null :: "shared_var \<Rightarrow> bool" where
  "operator_eq_null lhs = sv_empty lhs"

definition null_operator_ne :: "shared_var \<Rightarrow> bool" where
  "null_operator_ne rhs = (\<not> sv_empty rhs)"

definition operator_ne_null :: "shared_var \<Rightarrow> bool" where
  "operator_ne_null lhs = (\<not> sv_empty lhs)"

text \<open>
  Handle against a C-string, in both orders (lines 263-281). Each \<^verbatim>\<open>==\<close> wraps the
  characters in a \<^verbatim>\<open>std::basic_string\<close> and calls the handle-against-value operator;
  each \<^verbatim>\<open>!=\<close> negates the first \<^verbatim>\<open>==\<close>.
\<close>

definition operator_eq_cstr :: "shared_var \<Rightarrow> c_str \<Rightarrow> heap \<Rightarrow> error + bool" where
  "operator_eq_cstr lhs rhs h = operator_eq_val lhs (basic_string rhs) h"

definition cstr_operator_eq :: "c_str \<Rightarrow> shared_var \<Rightarrow> heap \<Rightarrow> error + bool" where
  "cstr_operator_eq lhs rhs h = operator_eq_val rhs (basic_string lhs) h"

definition operator_ne_cstr :: "shared_var \<Rightarrow> c_str \<Rightarrow> heap \<Rightarrow> error + bool" where
  "operator_ne_cstr lhs rhs h = negate (operator_eq_cstr lhs rhs h)"

definition cstr_operator_ne :: "c_str \<Rightarrow> shared_var \<Rightarrow> heap \<Rightarrow> error + bool" where
  "cstr_operator_ne lhs rhs h = negate (operator_eq_cstr rhs lhs h)"

section \<open>Handles that a heap accounts for\<close>

text \<open>
  A list of handles is accounted for when each non-null one points below the allocation
  mark at a live holder whose use count is at least the number of handles of the list
  that point there. Handles produced by the operations above always are; the other
  owners of a holder, if any, only make its count larger.
\<close>

definition refs :: "shared_var list \<Rightarrow> addr \<Rightarrow> nat" where
  "refs svs a = length (filter (\<lambda>s. ptr s = Some a) svs)"

definition accounted :: "heap \<Rightarrow> shared_var list \<Rightarrow> bool" where
  "accounted h svs =
     list_all
       (\<lambda>s. case ptr s of
               None \<Rightarrow> True
             | Some a \<Rightarrow>
                 a < next_free h \<and>
                 (case cells h a of None \<Rightarrow> False | Some cb \<Rightarrow> refs svs a \<le> use_count cb))
       svs"

text \<open>The value a handle holds: \<open>None\<close> for an empty handle or a pointer with no holder.\<close>

definition held :: "heap \<Rightarrow> shared_var \<Rightarrow> val option" where
  "held h s =
     (case ptr s of
        None \<Rightarrow> None
      | Some a \<Rightarrow> map_option (\<lambda>cb. holder_value (obj cb)) (cells h a))"

section \<open>Facts about values and the heap\<close>

lemma value_eq_sym: "value_eq a b = value_eq b a"
  by (cases a; cases b) (auto simp: double_eq_def)

lemma value_eq_type: "value_eq a b \<Longrightarrow> type_of a = type_of b"
  by (cases a; cases b) simp_all

lemma type_of_default_value: "type_of (default_value t) = t"
  by (cases t) simp_all

lemma sv_hold_fresh:
  "sv_hold v \<lparr>ptr = None\<rparr> h = (s, h') \<Longrightarrow>
     ptr s = Some (next_free h) \<and>
     cells h' (next_free h) = Some \<lparr>obj = Holder v, use_count = 1\<rparr>"
  by (auto simp: sv_hold_def make_shared_def release_def)

lemma dynamic_cast_live:
  "cells h a = Some cb \<Longrightarrow>
   dynamic_cast t (Some a) h =
     Inr (if type_of (holder_value (obj cb)) = t then Some (obj cb) else None)"
  by (simp add: dynamic_cast_def)

lemma held_SomeD:
  "held h s = Some v \<Longrightarrow>
     \<exists>a cb. ptr s = Some a \<and> cells h a = Some cb \<and> holder_value (obj cb) = v"
  by (auto simp: held_def split: option.splits)

lemma accounted_single:
  "accounted h [s] =
     (case ptr s of
        None \<Rightarrow> True
      | Some a \<Rightarrow> a < next_free h \<and> (\<exists>cb. cells h a = Some cb \<and> 1 \<le> use_count cb))"
  by (auto simp: accounted_def refs_def split: option.splits)

lemma accounted_pair:
  "accounted h [a, b] =
     (accounted h [a] \<and> accounted h [b] \<and>
      (\<forall>x. ptr a = Some x \<and> ptr b = Some x \<longrightarrow>
           (\<exists>cb. cells h x = Some cb \<and> 2 \<le> use_count cb)))"
  by (cases "ptr a"; cases "ptr b")
     (auto simp: accounted_def refs_def split: option.splits if_splits)

lemma accounted_pair_fst: "accounted h [a, b] \<Longrightarrow> accounted h [a]"
  by (simp add: accounted_pair)

lemma accounted_pair_snd: "accounted h [a, b] \<Longrightarrow> accounted h [b]"
  by (simp add: accounted_pair)

lemma sv_equals_live:
  "cells h x = Some cx \<Longrightarrow> cells h y = Some cy \<Longrightarrow>
   sv_equals \<lparr>ptr = Some x\<rparr> \<lparr>ptr = Some y\<rparr> h =
     Inr (type_of (holder_value (obj cy)) = type_of (holder_value (obj cx))
          \<and> value_eq (holder_value (obj cy)) (holder_value (obj cx)))"
  by (simp add: sv_equals_def holder_equals_def dynamic_cast_def)

lemma sv_equals_total:
  assumes "accounted h [a]" and "accounted h [b]"
  shows "sv_equals a b h =
     Inr (case (held h a, held h b) of
            (None, None) \<Rightarrow> True
          | (Some va, Some vb) \<Rightarrow> type_of va = type_of vb \<and> value_eq va vb
          | _ \<Rightarrow> False)"
  using assms
  by (cases a; cases b)
     (auto simp: accounted_single sv_equals_def holder_equals_def dynamic_cast_def held_def
       value_eq_sym split: option.splits)

lemma sv_equals_val_total:
  assumes "accounted h [a]"
  shows "sv_equals_val a v h =
     Inr (case held h a of
            None \<Rightarrow> False
          | Some va \<Rightarrow> type_of va = type_of v \<and> value_eq va v)"
  using assms
  by (auto simp: accounted_single sv_equals_val_def dynamic_cast_def held_def
       split: option.splits)

lemma sv_hold_accounted:
  assumes "accounted h [s]" and "sv_hold v s h = (s', h')"
  shows "ptr s' = Some (next_free h)
       \<and> cells h' (next_free h) = Some \<lparr>obj = Holder v, use_count = 1\<rparr>
       \<and> next_free h' = next_free h + 1"
  using assms
  by (auto simp: accounted_single sv_hold_def make_shared_def release_def
      split: option.splits)

lemma sv_hold_held:
  assumes "accounted h [s]" and "sv_hold v s h = (s', h')"
  shows "held h' s' = Some v \<and> accounted h' [s']"
  using sv_hold_accounted [OF assms]
  by (simp add: held_def accounted_single)

lemma release_keeps_other:
  assumes "accounted h [b, a]" and "held h b = Some v"
  shows "held (release (ptr a) h) b = Some v \<and> accounted (release (ptr a) h) [b]"
  using assms
  by (cases "ptr a"; cases "ptr b")
     (auto simp: accounted_pair accounted_single held_def release_def split: option.splits)

lemma sv_hold_keeps_other:
  assumes "accounted h [b, a]" and "held h b = Some v" and "sv_hold w a h = (a', h')"
  shows "held h' b = Some v \<and> accounted h' [b]"
  using assms
  by (cases "ptr a"; cases "ptr b")
     (auto simp: accounted_pair accounted_single held_def sv_hold_def make_shared_def
       release_def split: option.splits)

lemma sv_ctor_copy_shares:
  assumes "accounted h [a]" and "sv_ctor_copy a h = (b, h1)"
  shows "ptr b = ptr a \<and> held h1 b = held h a \<and> accounted h1 [b, a]"
  using assms
  by (cases "ptr a")
     (auto simp: accounted_pair accounted_single held_def sv_ctor_copy_def acquire_def
       split: option.splits)

lemma sv_assign_copy_shares:
  assumes "accounted h [a, b0]"
  shows "ptr (this_after (sv_assign_copy a b0 h)) = ptr a
       \<and> held (heap_after (sv_assign_copy a b0 h)) (this_after (sv_assign_copy a b0 h)) = held h a
       \<and> accounted (heap_after (sv_assign_copy a b0 h)) [this_after (sv_assign_copy a b0 h), a]
       \<and> returned (sv_assign_copy a b0 h) = Some (this_after (sv_assign_copy a b0 h))"
  using assms
  by (cases "ptr a"; cases "ptr b0")
     (auto simp: accounted_pair accounted_single held_def sv_assign_copy_def acquire_def
       release_def Let_def split: option.splits)

lemma make_shared_frame:
  "x < next_free h \<Longrightarrow> cells (snd (make_shared v h)) x = cells h x"
  by (simp add: make_shared_def)

lemma release_frame:
  "cells (release p h) x = Some cb' \<Longrightarrow> \<exists>cb. cells h x = Some cb \<and> obj cb = obj cb'"
  by (auto simp: release_def split: option.splits if_splits)

lemma acquire_frame:
  "cells (acquire p h) x = Some cb' \<Longrightarrow> \<exists>cb. cells h x = Some cb \<and> obj cb = obj cb'"
  by (auto simp: acquire_def split: option.splits if_splits)

lemma sv_hold_frame:
  assumes "sv_hold w a h = (a', h')" and "x < next_free h" and "cells h' x = Some cb'"
  shows "\<exists>cb. cells h x = Some cb \<and> obj cb = obj cb'"
proof -
  from assms(1) have h': "h' = release (ptr a) (snd (make_shared w h))"
    by (auto simp: sv_hold_def split: prod.splits)
  from release_frame [of "ptr a" "snd (make_shared w h)" x cb'] assms(3) h'
  obtain cb where "cells (snd (make_shared w h)) x = Some cb" and "obj cb = obj cb'"
    by auto
  then show ?thesis
    using make_shared_frame [OF assms(2), of w] by simp
qed

lemma sv_assign_val_holds:
  assumes "accounted h [s]"
  shows "held (heap_after (sv_assign_val_move v s h)) (this_after (sv_assign_val_move v s h))
           = Some v
       \<and> ptr (this_after (sv_assign_val_move v s h)) = Some (next_free h)
       \<and> returned (sv_assign_val_move v s h) = Some (this_after (sv_assign_val_move v s h))"
proof -
  obtain s' h' where hold: "sv_hold v s h = (s', h')"
    by (cases "sv_hold v s h")
  from sv_hold_accounted [OF assms hold] sv_hold_held [OF assms hold] show ?thesis
    by (simp add: sv_assign_val_move_def hold)
qed

section \<open>Construction from a value\<close>

text \<open>
  Claim C1, as the code has it. For every holdable type \<^verbatim>\<open>T\<close> and every value \<open>v\<close> of
  \<^verbatim>\<open>T\<close>, a handle constructed from \<open>v\<close> (by copy or by move) answers \<^verbatim>\<open>is<T>()\<close> with
  true and \<^verbatim>\<open>as<T>()\<close> with \<open>v\<close>, and both \<^verbatim>\<open>handle == v\<close> and \<^verbatim>\<open>v == handle\<close>
  evaluate to what \<^verbatim>\<open>v == v\<close> is under \<^verbatim>\<open>T\<close>'s own equality.
\<close>

theorem C1_construct_from_value:
  assumes "enable_if_holdable (type_of v)"
    and "sv_ctor_val_copy v h = (s, h') \<or> sv_ctor_val_move v h = (s, h')"
  shows "sv_is (type_of v) s h' = Inr True
       \<and> sv_as (type_of v) s h' = Inr v
       \<and> operator_eq_val s v h' = Inr (value_eq v v)
       \<and> val_operator_eq v s h' = Inr (value_eq v v)"
proof -
  from assms(2) have hold: "sv_hold v \<lparr>ptr = None\<rparr> h = (s, h')"
    by (auto simp: sv_ctor_val_copy_def sv_ctor_val_move_def)
  from sv_hold_fresh [OF hold]
  have p: "ptr s = Some (next_free h)"
    and c: "cells h' (next_free h) = Some \<lparr>obj = Holder v, use_count = 1\<rparr>"
    by simp_all
  from assms(1) have nn: "type_of v \<noteq> TNullptr"
    by (auto simp: enable_if_holdable_def)
  have dc: "dynamic_cast (type_of v) (ptr s) h' = Inr (Some (Holder v))"
    using p dynamic_cast_live [OF c, of "type_of v"] by simp
  show ?thesis
    using nn dc p
    by (simp add: sv_is_def sv_as_def operator_eq_val_def val_operator_eq_def
        sv_equals_val_def)
qed

text \<open>The theorem at \<^verbatim>\<open>shared_var v(3)\<close> on an empty heap, the first unit test.\<close>

theorem C1_construct_from_value_witness:
  "enable_if_holdable (type_of (VInt 3))
   \<and> sv_ctor_val_copy (VInt 3) \<lparr>cells = Map.empty, next_free = 0\<rparr> =
       (\<lparr>ptr = Some 0\<rparr>,
        \<lparr>cells = [0 \<mapsto> \<lparr>obj = Holder (VInt 3), use_count = 1\<rparr>], next_free = 1\<rparr>)
   \<and> sv_is TInt \<lparr>ptr = Some 0\<rparr>
        \<lparr>cells = [0 \<mapsto> \<lparr>obj = Holder (VInt 3), use_count = 1\<rparr>], next_free = 1\<rparr> = Inr True
   \<and> sv_as TInt \<lparr>ptr = Some 0\<rparr>
        \<lparr>cells = [0 \<mapsto> \<lparr>obj = Holder (VInt 3), use_count = 1\<rparr>], next_free = 1\<rparr> = Inr (VInt 3)
   \<and> operator_eq_val \<lparr>ptr = Some 0\<rparr> (VInt 3)
        \<lparr>cells = [0 \<mapsto> \<lparr>obj = Holder (VInt 3), use_count = 1\<rparr>], next_free = 1\<rparr> = Inr True
   \<and> val_operator_eq (VInt 3) \<lparr>ptr = Some 0\<rparr>
        \<lparr>cells = [0 \<mapsto> \<lparr>obj = Holder (VInt 3), use_count = 1\<rparr>], next_free = 1\<rparr> = Inr True"
proof -
  have a: "enable_if_holdable (type_of (VInt 3))"
    by (simp add: enable_if_holdable_def)
  have b: "sv_ctor_val_copy (VInt 3) \<lparr>cells = Map.empty, next_free = 0\<rparr> =
       (\<lparr>ptr = Some 0\<rparr>,
        \<lparr>cells = [0 \<mapsto> \<lparr>obj = Holder (VInt 3), use_count = 1\<rparr>], next_free = 1\<rparr>)"
    by (simp add: sv_ctor_val_copy_def sv_hold_def make_shared_def release_def)
  from C1_construct_from_value [OF a disjI1 [OF b]] a b show ?thesis
    by simp
qed

text \<open>
  Claim C1 as stated fails at a NaN: \<^verbatim>\<open>shared_var h(NaN)\<close> holds a \<^verbatim>\<open>double\<close>, and
  \<^verbatim>\<open>h == NaN\<close> is false, since \<^verbatim>\<open>_equals_val\<close> returns \<^verbatim>\<open>p_downcast->value_ == rhs\<close>.
\<close>

theorem C1_nan_counterexample:
  "enable_if_holdable (type_of (VDouble 0x7FF8000000000000)) \<and>
   operator_eq_val
     (fst (sv_ctor_val_copy (VDouble 0x7FF8000000000000) \<lparr>cells = Map.empty, next_free = 0\<rparr>))
     (VDouble 0x7FF8000000000000)
     (snd (sv_ctor_val_copy (VDouble 0x7FF8000000000000) \<lparr>cells = Map.empty, next_free = 0\<rparr>))
   = Inr False"
  by (simp add: enable_if_holdable_def sv_ctor_val_copy_def sv_hold_def make_shared_def
      release_def operator_eq_val_def sv_equals_val_def dynamic_cast_def double_eq_def is_nan_def)

section \<open>A handle asked about another type\<close>

text \<open>
  Claim C2. For two distinct holdable types \<^verbatim>\<open>T1\<close> and \<^verbatim>\<open>T2\<close> and a handle holding a
  value \<open>v1\<close> of \<^verbatim>\<open>T1\<close>: comparing the handle against a value \<open>v2\<close> of \<^verbatim>\<open>T2\<close>, or
  against a handle whose cell holds \<open>v2\<close>, or its cell against that cell, returns false
  and no error; \<^verbatim>\<open>is<T2>()\<close> is false; \<^verbatim>\<open>as<T2>()\<close> is the default of \<^verbatim>\<open>T2\<close> and
  \<^verbatim>\<open>as<T2>(d)\<close> is \<open>d\<close>, never \<open>v1\<close>.
\<close>

theorem C2_type_mismatch:
  assumes "held h s = Some v1"
    and "enable_if_holdable (type_of v1)"
    and "enable_if_holdable (type_of v2)"
    and "type_of v1 \<noteq> type_of v2"
  shows "operator_eq_val s v2 h = Inr False
       \<and> val_operator_eq v2 s h = Inr False
       \<and> (\<forall>s2. held h s2 = Some v2 \<longrightarrow>
             operator_eq s s2 h = Inr False \<and> operator_eq s2 s h = Inr False
           \<and> holder_equals (Holder v1) (ptr s2) h = Inr False)
       \<and> sv_is (type_of v2) s h = Inr False
       \<and> sv_as (type_of v2) s h = Inr (default_value (type_of v2))
       \<and> (\<forall>d. type_of d = type_of v2 \<longrightarrow> sv_as_def d s h = Inr d)
       \<and> default_value (type_of v2) \<noteq> v1"
proof -
  from held_SomeD [OF assms(1)] obtain a cb
    where p: "ptr s = Some a" and c: "cells h a = Some cb" and v: "holder_value (obj cb) = v1"
    by blast
  have dc: "dynamic_cast (type_of v2) (ptr s) h = Inr None"
    using p v assms(4) dynamic_cast_live [OF c, of "type_of v2"] by simp
  have o: "obj cb = Holder v1"
    using v by (cases "obj cb") simp
  have cells2: "operator_eq s s2 h = Inr False \<and> operator_eq s2 s h = Inr False
           \<and> holder_equals (Holder v1) (ptr s2) h = Inr False" if h2: "held h s2 = Some v2" for s2
  proof -
    from held_SomeD [OF h2] obtain a2 cb2
      where p2: "ptr s2 = Some a2" and c2: "cells h a2 = Some cb2"
        and v2: "holder_value (obj cb2) = v2"
      by blast
    have o2: "obj cb2 = Holder v2"
      using v2 by (cases "obj cb2") simp
    show ?thesis
      using p c o p2 c2 o2 assms(4)
      by (simp add: operator_eq_def sv_equals_def holder_equals_def dynamic_cast_def)
  qed
  have nn: "type_of v2 \<noteq> TNullptr"
    using assms(3) by (auto simp: enable_if_holdable_def)
  have d: "default_value (type_of v2) \<noteq> v1"
    using assms(4) type_of_default_value [of "type_of v2"] by auto
  show ?thesis
    using dc p nn d cells2
    by (simp add: operator_eq_val_def val_operator_eq_def sv_equals_val_def sv_is_def
        sv_as_def sv_as_def_def)
qed

text \<open>
  The theorem at the unit test \<^verbatim>\<open>AsWithDefaultValue\<close>: \<^verbatim>\<open>shared_var x(14.0)\<close> and
  \<^verbatim>\<open>x.as(0)\<close>.
\<close>

theorem C2_type_mismatch_witness:
  "held \<lparr>cells = [0 \<mapsto> \<lparr>obj = Holder (VDouble 0x402C000000000000), use_count = 1\<rparr>],
          next_free = 1\<rparr> \<lparr>ptr = Some 0\<rparr> = Some (VDouble 0x402C000000000000)
   \<and> enable_if_holdable (type_of (VDouble 0x402C000000000000))
   \<and> enable_if_holdable (type_of (VInt 0))
   \<and> type_of (VDouble 0x402C000000000000) \<noteq> type_of (VInt 0)
   \<and> operator_eq_val \<lparr>ptr = Some 0\<rparr> (VInt 0)
        \<lparr>cells = [0 \<mapsto> \<lparr>obj = Holder (VDouble 0x402C000000000000), use_count = 1\<rparr>],
          next_free = 1\<rparr> = Inr False
   \<and> sv_is TInt \<lparr>ptr = Some 0\<rparr>
        \<lparr>cells = [0 \<mapsto> \<lparr>obj = Holder (VDouble 0x402C000000000000), use_count = 1\<rparr>],
          next_free = 1\<rparr> = Inr False
   \<and> sv_as TInt \<lparr>ptr = Some 0\<rparr>
        \<lparr>cells = [0 \<mapsto> \<lparr>obj = Holder (VDouble 0x402C000000000000), use_count = 1\<rparr>],
          next_free = 1\<rparr> = Inr (VInt 0)
   \<and> sv_as_def (VInt 0) \<lparr>ptr = Some 0\<rparr>
        \<lparr>cells = [0 \<mapsto> \<lparr>obj = Holder (VDouble 0x402C000000000000), use_count = 1\<rparr>],
          next_free = 1\<rparr> = Inr (VInt 0)"
proof -
  have a: "held \<lparr>cells = [0 \<mapsto> \<lparr>obj = Holder (VDouble 0x402C000000000000), use_count = 1\<rparr>],
          next_free = 1\<rparr> \<lparr>ptr = Some 0\<rparr> = Some (VDouble 0x402C000000000000)"
    by (simp add: held_def)
  have b: "enable_if_holdable (type_of (VDouble 0x402C000000000000))"
    and c: "enable_if_holdable (type_of (VInt 0))"
    by (simp_all add: enable_if_holdable_def)
  have d: "type_of (VDouble 0x402C000000000000) \<noteq> type_of (VInt 0)"
    by simp
  from C2_type_mismatch [OF a b c d] a b c d show ?thesis
    by simp
qed

section \<open>Recovering the held value\<close>

text \<open>
  Claim C3. For every type \<^verbatim>\<open>T\<close> and every handle, \<^verbatim>\<open>as<T>()\<close> returns the held value
  when the handle holds exactly a \<^verbatim>\<open>T\<close>; otherwise \<^verbatim>\<open>as<T>(def)\<close> returns \<open>def\<close> and
  \<^verbatim>\<open>as<T>()\<close> returns the value-initialised \<^verbatim>\<open>T\<close>. In each case there is a result: a
  mismatch raises no error.
\<close>

theorem C3_as_recovers_or_defaults:
  assumes "accounted h [s]"
  shows "sv_as t s h =
           Inr (case held h s of
                  None \<Rightarrow> default_value t
                | Some v \<Rightarrow> if type_of v = t then v else default_value t)
       \<and> sv_as_def d s h =
           Inr (case held h s of
                  None \<Rightarrow> d
                | Some v \<Rightarrow> if type_of v = type_of d then v else d)"
  using assms
  by (auto simp: accounted_single sv_as_def sv_as_def_def dynamic_cast_def held_def
      split: option.splits)

text \<open>
  The theorem at the unit test \<^verbatim>\<open>Cast\<close>, \<^verbatim>\<open>shared_var x(14)\<close>, asked for an
  \<^verbatim>\<open>int\<close> and for a \<^verbatim>\<open>std::string\<close>.
\<close>

theorem C3_as_recovers_or_defaults_witness:
  "accounted \<lparr>cells = [0 \<mapsto> \<lparr>obj = Holder (VInt 14), use_count = 1\<rparr>], next_free = 1\<rparr>
     [\<lparr>ptr = Some 0\<rparr>]
   \<and> sv_as TInt \<lparr>ptr = Some 0\<rparr>
        \<lparr>cells = [0 \<mapsto> \<lparr>obj = Holder (VInt 14), use_count = 1\<rparr>], next_free = 1\<rparr>
       = Inr (VInt 14)
   \<and> sv_as TString \<lparr>ptr = Some 0\<rparr>
        \<lparr>cells = [0 \<mapsto> \<lparr>obj = Holder (VInt 14), use_count = 1\<rparr>], next_free = 1\<rparr>
       = Inr (VString [])
   \<and> sv_as_def (VString ''none'') \<lparr>ptr = Some 0\<rparr>
        \<lparr>cells = [0 \<mapsto> \<lparr>obj = Holder (VInt 14), use_count = 1\<rparr>], next_free = 1\<rparr>
       = Inr (VString ''none'')"
proof -
  have a: "accounted \<lparr>cells = [0 \<mapsto> \<lparr>obj = Holder (VInt 14), use_count = 1\<rparr>], next_free = 1\<rparr>
     [\<lparr>ptr = Some 0\<rparr>]"
    by (simp add: accounted_def refs_def)
  from C3_as_recovers_or_defaults [OF a, of TInt "VString ''none''"]
    C3_as_recovers_or_defaults [OF a, of TString "VString ''none''"] a
  show ?thesis
    by (simp add: held_def)
qed

section \<open>Assignment from a value\<close>

text \<open>
  Claim C4 says that \<^verbatim>\<open>h = v\<close>, by copy or by move, is well defined and results in the
  assigned handle, which then references a new cell of type \<^verbatim>\<open>T\<close> holding \<open>v\<close>. At
  \<^verbatim>\<open>shared_var h; int i = 7; h = i;\<close> the argument is an lvalue, so
  \<^verbatim>\<open>operator=(const T&)\<close> is chosen: it calls \<^verbatim>\<open>_hold\<close> and then runs off its end
  with no return statement, which is undefined behaviour. The sibling
  \<^verbatim>\<open>operator=(T&&)\<close>, chosen for \<^verbatim>\<open>h = 7\<close>, returns the handle, which holds 7.
\<close>

theorem C4_copy_assignment_returns_nothing:
  "sv_assign_val_copy (VInt 7) \<lparr>ptr = None\<rparr> \<lparr>cells = Map.empty, next_free = 0\<rparr>
     = Inl MissingReturn
   \<and> returned (sv_assign_val_move (VInt 7) \<lparr>ptr = None\<rparr> \<lparr>cells = Map.empty, next_free = 0\<rparr>)
       = Some \<lparr>ptr = Some 0\<rparr>
   \<and> held (heap_after (sv_assign_val_move (VInt 7) \<lparr>ptr = None\<rparr> \<lparr>cells = Map.empty, next_free = 0\<rparr>))
        (this_after (sv_assign_val_move (VInt 7) \<lparr>ptr = None\<rparr> \<lparr>cells = Map.empty, next_free = 0\<rparr>))
       = Some (VInt 7)"
  by (simp add: sv_assign_val_copy_def sv_assign_val_move_def sv_hold_def make_shared_def
      release_def held_def)

section \<open>Equality of two handles\<close>

text \<open>
  Claim C5, as the code has it. For two handles: a handle equals itself exactly when it
  is empty or its value equals itself under its type's own \<^verbatim>\<open>==\<close>;
  \<^verbatim>\<open>a == b\<close> and \<^verbatim>\<open>b == a\<close> agree; two handles holding values
  compare equal exactly when the values have the same type and are equal under that
  type's \<^verbatim>\<open>==\<close>; a handle holding the \<^verbatim>\<open>int\<close> 3 and one holding the \<^verbatim>\<open>double\<close> 3.0
  compare unequal.
\<close>

theorem C5_handle_equality:
  assumes "accounted h [a, b]"
  shows "operator_eq a a h = Inr (case held h a of None \<Rightarrow> True | Some v \<Rightarrow> value_eq v v)
       \<and> operator_eq a b h = operator_eq b a h
       \<and> (\<forall>va vb. held h a = Some va \<and> held h b = Some vb \<longrightarrow>
            operator_eq a b h = Inr (type_of va = type_of vb \<and> value_eq va vb))
       \<and> (held h a = Some (VInt 3) \<and> held h b = Some (VDouble 0x4008000000000000) \<longrightarrow>
            operator_eq a b h = Inr False)"
proof -
  have a: "accounted h [a]" and b: "accounted h [b]"
    using assms accounted_pair_fst accounted_pair_snd by blast+
  have sym: "operator_eq a b h = operator_eq b a h"
    unfolding operator_eq_def sv_equals_total [OF a b] sv_equals_total [OF b a]
    by (auto simp: value_eq_sym split: option.splits)
  show ?thesis
    using sym
    unfolding operator_eq_def sv_equals_total [OF a b] sv_equals_total [OF a a]
    by (auto split: option.splits)
qed

text \<open>
  The theorem at a handle holding the \<^verbatim>\<open>int\<close> 3 and one holding the \<^verbatim>\<open>double\<close>
  3.0.
\<close>

theorem C5_handle_equality_witness:
  "accounted
     \<lparr>cells = [0 \<mapsto> \<lparr>obj = Holder (VInt 3), use_count = 1\<rparr>,
               1 \<mapsto> \<lparr>obj = Holder (VDouble 0x4008000000000000), use_count = 1\<rparr>],
      next_free = 2\<rparr>
     [\<lparr>ptr = Some 0\<rparr>, \<lparr>ptr = Some 1\<rparr>]
   \<and> operator_eq \<lparr>ptr = Some 0\<rparr> \<lparr>ptr = Some 0\<rparr>
       \<lparr>cells = [0 \<mapsto> \<lparr>obj = Holder (VInt 3), use_count = 1\<rparr>,
                 1 \<mapsto> \<lparr>obj = Holder (VDouble 0x4008000000000000), use_count = 1\<rparr>],
        next_free = 2\<rparr> = Inr True
   \<and> operator_eq \<lparr>ptr = Some 0\<rparr> \<lparr>ptr = Some 1\<rparr>
       \<lparr>cells = [0 \<mapsto> \<lparr>obj = Holder (VInt 3), use_count = 1\<rparr>,
                 1 \<mapsto> \<lparr>obj = Holder (VDouble 0x4008000000000000), use_count = 1\<rparr>],
        next_free = 2\<rparr> = Inr False
   \<and> operator_eq \<lparr>ptr = Some 1\<rparr> \<lparr>ptr = Some 0\<rparr>
       \<lparr>cells = [0 \<mapsto> \<lparr>obj = Holder (VInt 3), use_count = 1\<rparr>,
                 1 \<mapsto> \<lparr>obj = Holder (VDouble 0x4008000000000000), use_count = 1\<rparr>],
        next_free = 2\<rparr> = Inr False"
proof -
  have a: "accounted
     \<lparr>cells = [0 \<mapsto> \<lparr>obj = Holder (VInt 3), use_count = 1\<rparr>,
               1 \<mapsto> \<lparr>obj = Holder (VDouble 0x4008000000000000), use_count = 1\<rparr>],
      next_free = 2\<rparr>
     [\<lparr>ptr = Some 0\<rparr>, \<lparr>ptr = Some 1\<rparr>]"
    by (simp add: accounted_def refs_def)
  from C5_handle_equality [OF a] a show ?thesis
    by (auto simp: held_def)
qed

text \<open>
  Claim C5 as stated says every handle equals itself. A handle holding a NaN does not:
  \<^verbatim>\<open>holder<double>::equals\<close> returns \<^verbatim>\<open>rhs_downcast->value_ == value_\<close>.
\<close>

theorem C5_nan_counterexample:
  "operator_eq
     (fst (sv_ctor_val_copy (VDouble 0x7FF8000000000000) \<lparr>cells = Map.empty, next_free = 0\<rparr>))
     (fst (sv_ctor_val_copy (VDouble 0x7FF8000000000000) \<lparr>cells = Map.empty, next_free = 0\<rparr>))
     (snd (sv_ctor_val_copy (VDouble 0x7FF8000000000000) \<lparr>cells = Map.empty, next_free = 0\<rparr>))
   = Inr False"
  by (simp add: sv_ctor_val_copy_def sv_hold_def make_shared_def release_def operator_eq_def
      sv_equals_def holder_equals_def dynamic_cast_def double_eq_def is_nan_def)

section \<open>Copies share a cell that no assignment changes\<close>

text \<open>
  Claim C6, as the code has it. Let \<open>a\<close> hold \<open>v\<close> and let \<open>b\<close> be a copy of
  \<open>a\<close>, made by the copy constructor or by copy assignment to a handle \<open>b0\<close>. Then
  \<open>b\<close> points at the cell of \<open>a\<close> and holds \<open>v\<close>, and \<^verbatim>\<open>b == a\<close> and
  \<^verbatim>\<open>b == v\<close> evaluate to what \<^verbatim>\<open>v == v\<close> is under the type's own equality. After
  \<open>a\<close> is assigned another value by \<^verbatim>\<open>operator=(T&&)\<close>, a C-string or
  \<^verbatim>\<open>nullptr\<close>, \<open>b\<close> still holds \<open>v\<close>, and every cell that is still there holds
  the holder it held before.
\<close>

theorem C6_copy_shares_and_survives:
  assumes "accounted h [a, b0]" and "held h a = Some v"
    and "(b, h1) = sv_ctor_copy a h
       \<or> (b, h1) = (this_after (sv_assign_copy a b0 h), heap_after (sv_assign_copy a b0 h))"
  shows "ptr b = ptr a \<and> held h1 b = Some v
       \<and> operator_eq b a h1 = Inr (value_eq v v)
       \<and> operator_eq_val b v h1 = Inr (value_eq v v)
       \<and> held (heap_after (sv_assign_val_move w a h1)) b = Some v
       \<and> held (heap_after (sv_assign_cstr c a h1)) b = Some v
       \<and> held (heap_after (sv_assign_null a h1)) b = Some v
       \<and> (\<forall>x cb'. x < next_free h1
             \<and> (cells (heap_after (sv_assign_val_move w a h1)) x = Some cb'
              \<or> cells (heap_after (sv_assign_cstr c a h1)) x = Some cb'
              \<or> cells (heap_after (sv_assign_null a h1)) x = Some cb')
             \<longrightarrow> (\<exists>cb. cells h1 x = Some cb \<and> obj cb = obj cb'))"
proof -
  have a: "accounted h [a]"
    using assms(1) by (rule accounted_pair_fst)
  have shared: "ptr b = ptr a \<and> held h1 b = held h a \<and> accounted h1 [b, a]"
    using assms(3)
  proof
    assume "(b, h1) = sv_ctor_copy a h"
    then show ?thesis using sv_ctor_copy_shares [OF a, of b h1] by simp
  next
    assume "(b, h1) = (this_after (sv_assign_copy a b0 h), heap_after (sv_assign_copy a b0 h))"
    then show ?thesis using sv_assign_copy_shares [OF assms(1)] by simp
  qed
  then have pb: "ptr b = ptr a" and hb: "held h1 b = Some v" and acc: "accounted h1 [b, a]"
    using assms(2) by simp_all
  have ha: "held h1 a = Some v"
    using hb pb by (simp add: held_def)
  have b1: "accounted h1 [b]" and a1: "accounted h1 [a]"
    using acc accounted_pair_fst accounted_pair_snd by blast+
  have eq: "operator_eq b a h1 = Inr (value_eq v v)"
    unfolding operator_eq_def sv_equals_total [OF b1 a1] by (simp add: hb ha)
  have eqv: "operator_eq_val b v h1 = Inr (value_eq v v)"
    unfolding operator_eq_val_def sv_equals_val_total [OF b1] by (simp add: hb)
  have hold: "held (snd (sv_hold u a h1)) b = Some v" for u
    using sv_hold_keeps_other [OF acc hb, of u "fst (sv_hold u a h1)" "snd (sv_hold u a h1)"]
    by simp
  have null: "held (heap_after (sv_assign_null a h1)) b = Some v"
    using release_keeps_other [OF acc hb] by (simp add: sv_assign_null_def Let_def)
  have frame_hold: "\<exists>cb. cells h1 x = Some cb \<and> obj cb = obj cb'"
    if "x < next_free h1" and "cells (snd (sv_hold u a h1)) x = Some cb'" for u x cb'
    using sv_hold_frame [of u a h1 "fst (sv_hold u a h1)" "snd (sv_hold u a h1)" x cb'] that
    by simp
  have frame_null: "\<exists>cb. cells h1 x = Some cb \<and> obj cb = obj cb'"
    if "cells (heap_after (sv_assign_null a h1)) x = Some cb'" for x cb'
    using release_frame [of "ptr a" h1 x cb'] that by (simp add: sv_assign_null_def Let_def)
  have hm: "heap_after (sv_assign_val_move u a h1) = snd (sv_hold u a h1)"
    and hs: "heap_after (sv_assign_cstr c a h1) = snd (sv_hold (basic_string c) a h1)" for u
    by (simp_all add: sv_assign_val_move_def sv_assign_cstr_def split: prod.splits)
  show ?thesis
    using pb hb eq eqv hold null frame_hold frame_null
    unfolding hm hs by blast
qed

text \<open>
  The theorem at the unit test \<^verbatim>\<open>AssignCopy\<close>: \<^verbatim>\<open>shared_var v(20); shared_var x = v;\<close>.
\<close>

theorem C6_copy_shares_and_survives_witness:
  "accounted \<lparr>cells = [0 \<mapsto> \<lparr>obj = Holder (VInt 20), use_count = 1\<rparr>], next_free = 1\<rparr>
     [\<lparr>ptr = Some 0\<rparr>, \<lparr>ptr = None\<rparr>]
   \<and> held \<lparr>cells = [0 \<mapsto> \<lparr>obj = Holder (VInt 20), use_count = 1\<rparr>], next_free = 1\<rparr>
        \<lparr>ptr = Some 0\<rparr> = Some (VInt 20)
   \<and> sv_ctor_copy \<lparr>ptr = Some 0\<rparr>
        \<lparr>cells = [0 \<mapsto> \<lparr>obj = Holder (VInt 20), use_count = 1\<rparr>], next_free = 1\<rparr>
      = (\<lparr>ptr = Some 0\<rparr>,
         \<lparr>cells = [0 \<mapsto> \<lparr>obj = Holder (VInt 20), use_count = 2\<rparr>], next_free = 1\<rparr>)
   \<and> operator_eq \<lparr>ptr = Some 0\<rparr> \<lparr>ptr = Some 0\<rparr>
        \<lparr>cells = [0 \<mapsto> \<lparr>obj = Holder (VInt 20), use_count = 2\<rparr>], next_free = 1\<rparr> = Inr True
   \<and> operator_eq_val \<lparr>ptr = Some 0\<rparr> (VInt 20)
        \<lparr>cells = [0 \<mapsto> \<lparr>obj = Holder (VInt 20), use_count = 2\<rparr>], next_free = 1\<rparr> = Inr True
   \<and> held (heap_after (sv_assign_val_move (VString ''other'') \<lparr>ptr = Some 0\<rparr>
              \<lparr>cells = [0 \<mapsto> \<lparr>obj = Holder (VInt 20), use_count = 2\<rparr>], next_free = 1\<rparr>))
        \<lparr>ptr = Some 0\<rparr> = Some (VInt 20)
   \<and> held (heap_after (sv_assign_null \<lparr>ptr = Some 0\<rparr>
              \<lparr>cells = [0 \<mapsto> \<lparr>obj = Holder (VInt 20), use_count = 2\<rparr>], next_free = 1\<rparr>))
        \<lparr>ptr = Some 0\<rparr> = Some (VInt 20)"
proof -
  have a: "accounted \<lparr>cells = [0 \<mapsto> \<lparr>obj = Holder (VInt 20), use_count = 1\<rparr>], next_free = 1\<rparr>
     [\<lparr>ptr = Some 0\<rparr>, \<lparr>ptr = None\<rparr>]"
    by (simp add: accounted_def refs_def)
  have b: "held \<lparr>cells = [0 \<mapsto> \<lparr>obj = Holder (VInt 20), use_count = 1\<rparr>], next_free = 1\<rparr>
        \<lparr>ptr = Some 0\<rparr> = Some (VInt 20)"
    by (simp add: held_def)
  have c: "(\<lparr>ptr = Some 0\<rparr>,
         \<lparr>cells = [0 \<mapsto> \<lparr>obj = Holder (VInt 20), use_count = 2\<rparr>], next_free = 1\<rparr>)
       = sv_ctor_copy \<lparr>ptr = Some 0\<rparr>
        \<lparr>cells = [0 \<mapsto> \<lparr>obj = Holder (VInt 20), use_count = 1\<rparr>], next_free = 1\<rparr>"
    by (simp add: sv_ctor_copy_def acquire_def numeral_2_eq_2)
  from C6_copy_shares_and_survives [OF a b disjI1 [OF c], of "VString ''other''" "Narrow []"]
    a b c [symmetric]
  show ?thesis
    by simp
qed

text \<open>
  Claim C6 as stated says \<^verbatim>\<open>b == a\<close> and \<^verbatim>\<open>b == v\<close> for every value. For
  \<^verbatim>\<open>shared_var a(NaN); shared_var b = a;\<close> both are false.
\<close>

theorem C6_nan_counterexample:
  "held (snd (sv_ctor_val_copy (VDouble 0x7FF8000000000000) \<lparr>cells = Map.empty, next_free = 0\<rparr>))
        (fst (sv_ctor_val_copy (VDouble 0x7FF8000000000000) \<lparr>cells = Map.empty, next_free = 0\<rparr>))
     = Some (VDouble 0x7FF8000000000000)
   \<and> operator_eq
       (fst (sv_ctor_copy
          (fst (sv_ctor_val_copy (VDouble 0x7FF8000000000000) \<lparr>cells = Map.empty, next_free = 0\<rparr>))
          (snd (sv_ctor_val_copy (VDouble 0x7FF8000000000000) \<lparr>cells = Map.empty, next_free = 0\<rparr>))))
       (fst (sv_ctor_val_copy (VDouble 0x7FF8000000000000) \<lparr>cells = Map.empty, next_free = 0\<rparr>))
       (snd (sv_ctor_copy
          (fst (sv_ctor_val_copy (VDouble 0x7FF8000000000000) \<lparr>cells = Map.empty, next_free = 0\<rparr>))
          (snd (sv_ctor_val_copy (VDouble 0x7FF8000000000000) \<lparr>cells = Map.empty, next_free = 0\<rparr>))))
     = Inr False
   \<and> operator_eq_val
       (fst (sv_ctor_copy
          (fst (sv_ctor_val_copy (VDouble 0x7FF8000000000000) \<lparr>cells = Map.empty, next_free = 0\<rparr>))
          (snd (sv_ctor_val_copy (VDouble 0x7FF8000000000000) \<lparr>cells = Map.empty, next_free = 0\<rparr>))))
       (VDouble 0x7FF8000000000000)
       (snd (sv_ctor_copy
          (fst (sv_ctor_val_copy (VDouble 0x7FF8000000000000) \<lparr>cells = Map.empty, next_free = 0\<rparr>))
          (snd (sv_ctor_val_copy (VDouble 0x7FF8000000000000) \<lparr>cells = Map.empty, next_free = 0\<rparr>))))
     = Inr False"
  by (simp add: sv_ctor_val_copy_def sv_hold_def make_shared_def release_def sv_ctor_copy_def
      acquire_def held_def operator_eq_def operator_eq_val_def sv_equals_val_def
      sv_equals_def holder_equals_def dynamic_cast_def double_eq_def is_nan_def)

section \<open>Empty handles\<close>

text \<open>
  Claim C7. A default-constructed handle, a handle constructed from \<^verbatim>\<open>nullptr\<close> and a
  handle assigned \<^verbatim>\<open>nullptr\<close> are empty, equal to \<^verbatim>\<open>nullptr\<close> in both orders, and
  answer \<^verbatim>\<open>is<nullptr_t>()\<close> with true. Two empty handles are equal; an empty and a
  non-empty handle are unequal in both orders, whatever the heap holds.
\<close>

theorem C7_empty_handles:
  "sv_empty sv_ctor_default \<and> operator_eq_null sv_ctor_default
   \<and> null_operator_eq sv_ctor_default \<and> sv_is TNullptr sv_ctor_default h = Inr True
   \<and> sv_empty sv_ctor_null \<and> operator_eq_null sv_ctor_null
   \<and> null_operator_eq sv_ctor_null \<and> sv_is TNullptr sv_ctor_null h = Inr True
   \<and> sv_empty (this_after (sv_assign_null s h))
   \<and> operator_eq_null (this_after (sv_assign_null s h))
   \<and> null_operator_eq (this_after (sv_assign_null s h))
   \<and> sv_is TNullptr (this_after (sv_assign_null s h)) (heap_after (sv_assign_null s h)) = Inr True
   \<and> returned (sv_assign_null s h) = Some (this_after (sv_assign_null s h))
   \<and> (sv_empty a \<and> sv_empty b \<longrightarrow>
        operator_eq a b h = Inr True \<and> operator_ne a b h = Inr False)
   \<and> (sv_empty a \<and> \<not> sv_empty b \<longrightarrow>
        operator_eq a b h = Inr False \<and> operator_eq b a h = Inr False
      \<and> operator_ne a b h = Inr True \<and> operator_ne b a h = Inr True)"
  by (auto simp: sv_empty_def sv_ctor_default_def sv_ctor_null_def operator_eq_null_def
      null_operator_eq_def sv_is_def sv_assign_null_def Let_def operator_eq_def operator_ne_def
      sv_equals_def)

text \<open>
  The theorem at an empty handle and a handle holding the \<^verbatim>\<open>int\<close> 0.
\<close>

theorem C7_empty_handles_witness:
  "sv_empty \<lparr>ptr = None\<rparr> \<and> \<not> sv_empty \<lparr>ptr = Some 0\<rparr>
   \<and> operator_eq \<lparr>ptr = None\<rparr> \<lparr>ptr = Some 0\<rparr>
        \<lparr>cells = [0 \<mapsto> \<lparr>obj = Holder (VInt 0), use_count = 1\<rparr>], next_free = 1\<rparr> = Inr False
   \<and> operator_eq \<lparr>ptr = Some 0\<rparr> \<lparr>ptr = None\<rparr>
        \<lparr>cells = [0 \<mapsto> \<lparr>obj = Holder (VInt 0), use_count = 1\<rparr>], next_free = 1\<rparr> = Inr False
   \<and> sv_empty (this_after (sv_assign_null \<lparr>ptr = Some 0\<rparr>
        \<lparr>cells = [0 \<mapsto> \<lparr>obj = Holder (VInt 0), use_count = 1\<rparr>], next_free = 1\<rparr>))"
proof -
  have a: "sv_empty \<lparr>ptr = None\<rparr>" and b: "\<not> sv_empty \<lparr>ptr = Some 0\<rparr>"
    by (simp_all add: sv_empty_def)
  from C7_empty_handles [of
      "\<lparr>cells = [0 \<mapsto> \<lparr>obj = Holder (VInt 0), use_count = 1\<rparr>], next_free = 1\<rparr>"
      "\<lparr>ptr = Some 0\<rparr>" "\<lparr>ptr = None\<rparr>" "\<lparr>ptr = Some 0\<rparr>"] a b
  show ?thesis
    by simp
qed

section \<open>C-strings\<close>

text \<open>
  Claim C8. A handle constructed from or assigned a narrow or wide C-string holds a
  \<^verbatim>\<open>std::string\<close> or \<^verbatim>\<open>std::wstring\<close> of its characters, not a pointer:
  \<^verbatim>\<open>is<std::string>()\<close> (or \<^verbatim>\<open>is<std::wstring>()\<close>) is true, \<^verbatim>\<open>is<const char *>()\<close>
  is false, and the handle equals the C-string and the string value in both orders.
\<close>

theorem C8_c_strings:
  assumes "accounted h [s0]"
    and "(s, h') = sv_ctor_cstr c h
       \<or> (s, h') = (this_after (sv_assign_cstr c s0 h), heap_after (sv_assign_cstr c s0 h))"
  shows "held h' s = Some (basic_string c)
       \<and> sv_is (case c of Narrow _ \<Rightarrow> TString | Wide _ \<Rightarrow> TWString) s h' = Inr True
       \<and> sv_is TCharPtr s h' = Inr False
       \<and> operator_eq_cstr s c h' = Inr True
       \<and> cstr_operator_eq c s h' = Inr True
       \<and> operator_eq_val s (basic_string c) h' = Inr True
       \<and> val_operator_eq (basic_string c) s h' = Inr True
       \<and> returned (sv_assign_cstr c s0 h) = Some (this_after (sv_assign_cstr c s0 h))"
proof -
  have e: "accounted h [\<lparr>ptr = None\<rparr>]"
    by (simp add: accounted_single)
  have "\<exists>s1. accounted h [s1] \<and> sv_hold (basic_string c) s1 h = (s, h')"
    using assms(2)
  proof
    assume "(s, h') = sv_ctor_cstr c h"
    then show ?thesis using e by (auto simp: sv_ctor_cstr_def)
  next
    assume "(s, h') = (this_after (sv_assign_cstr c s0 h), heap_after (sv_assign_cstr c s0 h))"
    then show ?thesis using assms(1)
      by (auto simp: sv_assign_cstr_def split: prod.splits)
  qed
  then obtain s1 where s1: "accounted h [s1]" and hold: "sv_hold (basic_string c) s1 h = (s, h')"
    by blast
  from sv_hold_accounted [OF s1 hold]
  have p: "ptr s = Some (next_free h)"
    and cl: "cells h' (next_free h) = Some \<lparr>obj = Holder (basic_string c), use_count = 1\<rparr>"
    by simp_all
  have ty: "type_of (basic_string c) = (case c of Narrow _ \<Rightarrow> TString | Wide _ \<Rightarrow> TWString)"
    by (cases c) simp_all
  have refl: "value_eq (basic_string c) (basic_string c)"
    by (cases c) simp_all
  have ret: "returned (sv_assign_cstr c s0 h) = Some (this_after (sv_assign_cstr c s0 h))"
    by (simp add: sv_assign_cstr_def split: prod.splits)
  have nn: "(case c of Narrow _ \<Rightarrow> TString | Wide _ \<Rightarrow> TWString) \<noteq> TNullptr"
    "(case c of Narrow _ \<Rightarrow> TString | Wide _ \<Rightarrow> TWString) \<noteq> TCharPtr"
    by (cases c; simp)+
  show ?thesis
    using p cl refl ret nn ty
    by (simp add: held_def sv_is_def dynamic_cast_def operator_eq_cstr_def cstr_operator_eq_def
        operator_eq_val_def val_operator_eq_def sv_equals_val_def)
qed

text \<open>
  The theorem at the unit test \<^verbatim>\<open>AssignCompareString\<close>: \<^verbatim>\<open>shared_var v("hello")\<close>.
\<close>

theorem C8_c_strings_witness:
  "accounted \<lparr>cells = Map.empty, next_free = 0\<rparr> [\<lparr>ptr = None\<rparr>]
   \<and> sv_ctor_cstr (Narrow ''hello'') \<lparr>cells = Map.empty, next_free = 0\<rparr>
       = (\<lparr>ptr = Some 0\<rparr>,
          \<lparr>cells = [0 \<mapsto> \<lparr>obj = Holder (VString ''hello''), use_count = 1\<rparr>], next_free = 1\<rparr>)
   \<and> sv_is TString \<lparr>ptr = Some 0\<rparr>
        \<lparr>cells = [0 \<mapsto> \<lparr>obj = Holder (VString ''hello''), use_count = 1\<rparr>], next_free = 1\<rparr>
       = Inr True
   \<and> operator_eq_cstr \<lparr>ptr = Some 0\<rparr> (Narrow ''hello'')
        \<lparr>cells = [0 \<mapsto> \<lparr>obj = Holder (VString ''hello''), use_count = 1\<rparr>], next_free = 1\<rparr>
       = Inr True
   \<and> operator_eq_val \<lparr>ptr = Some 0\<rparr> (VString ''hello'')
        \<lparr>cells = [0 \<mapsto> \<lparr>obj = Holder (VString ''hello''), use_count = 1\<rparr>], next_free = 1\<rparr>
       = Inr True"
proof -
  have a: "accounted \<lparr>cells = Map.empty, next_free = 0\<rparr> [\<lparr>ptr = None\<rparr>]"
    by (simp add: accounted_def)
  have b: "(\<lparr>ptr = Some 0\<rparr>,
          \<lparr>cells = [0 \<mapsto> \<lparr>obj = Holder (VString ''hello''), use_count = 1\<rparr>], next_free = 1\<rparr>)
       = sv_ctor_cstr (Narrow ''hello'') \<lparr>cells = Map.empty, next_free = 0\<rparr>"
    by (simp add: sv_ctor_cstr_def sv_hold_def make_shared_def release_def)
  from C8_c_strings [OF a disjI1 [OF b]] a b [symmetric]
  show ?thesis
    by simp
qed

section \<open>The comparison operators together\<close>

text \<open>
  Claim C9. For handles that the heap accounts for, every comparison returns a boolean:
  handle against handle, handle against a holdable value, handle against \<^verbatim>\<open>nullptr\<close>,
  handle against a C-string. In each case the mirrored order returns the same boolean and
  each \<^verbatim>\<open>!=\<close> returns its negation.
\<close>

theorem C9_equality_total_and_mirrored:
  assumes "accounted h [x, y]" and "enable_if_holdable (type_of v)"
  shows "(\<exists>b. operator_eq x y h = Inr b \<and> operator_eq y x h = Inr b
            \<and> operator_ne x y h = Inr (\<not> b) \<and> operator_ne y x h = Inr (\<not> b))
       \<and> (\<exists>b. operator_eq_val x v h = Inr b \<and> val_operator_eq v x h = Inr b
            \<and> operator_ne_val x v h = Inr (\<not> b) \<and> val_operator_ne v x h = Inr (\<not> b))
       \<and> (\<exists>b. operator_eq_null x = b \<and> null_operator_eq x = b
            \<and> operator_ne_null x = (\<not> b) \<and> null_operator_ne x = (\<not> b))
       \<and> (\<exists>b. operator_eq_cstr x c h = Inr b \<and> cstr_operator_eq c x h = Inr b
            \<and> operator_ne_cstr x c h = Inr (\<not> b) \<and> cstr_operator_ne c x h = Inr (\<not> b))"
proof -
  have x: "accounted h [x]" and y: "accounted h [y]"
    using assms accounted_pair_fst accounted_pair_snd by blast+
  have sym: "sv_equals x y h = sv_equals y x h"
    unfolding sv_equals_total [OF x y] sv_equals_total [OF y x]
    by (auto simp: value_eq_sym split: option.splits)
  have 1: "\<exists>b. operator_eq x y h = Inr b \<and> operator_eq y x h = Inr b
            \<and> operator_ne x y h = Inr (\<not> b) \<and> operator_ne y x h = Inr (\<not> b)"
    unfolding operator_eq_def operator_ne_def sym [symmetric]
    by (simp add: sv_equals_total [OF x y])
  have 2: "\<exists>b. operator_eq_val x w h = Inr b \<and> val_operator_eq w x h = Inr b
            \<and> operator_ne_val x w h = Inr (\<not> b) \<and> val_operator_ne w x h = Inr (\<not> b)" for w
    unfolding operator_eq_val_def operator_ne_val_def val_operator_eq_def val_operator_ne_def
    by (simp add: sv_equals_val_total [OF x])
  have 3: "\<exists>b. operator_eq_null x = b \<and> null_operator_eq x = b
            \<and> operator_ne_null x = (\<not> b) \<and> null_operator_ne x = (\<not> b)"
    by (simp add: operator_eq_null_def null_operator_eq_def operator_ne_null_def
        null_operator_ne_def)
  have 4: "\<exists>b. operator_eq_cstr x c h = Inr b \<and> cstr_operator_eq c x h = Inr b
            \<and> operator_ne_cstr x c h = Inr (\<not> b) \<and> cstr_operator_ne c x h = Inr (\<not> b)"
    unfolding operator_eq_cstr_def cstr_operator_eq_def operator_ne_cstr_def cstr_operator_ne_def
      operator_eq_val_def
    by (simp add: sv_equals_val_total [OF x])
  from 1 2 [of v] 3 4 show ?thesis by blast
qed

text \<open>
  The theorem at a handle holding the \<^verbatim>\<open>int\<close> 3 and one holding the string
  \<^verbatim>\<open>"hi"\<close>.
\<close>

theorem C9_equality_total_and_mirrored_witness:
  "accounted
     \<lparr>cells = [0 \<mapsto> \<lparr>obj = Holder (VInt 3), use_count = 1\<rparr>,
               1 \<mapsto> \<lparr>obj = Holder (VString ''hi''), use_count = 1\<rparr>],
      next_free = 2\<rparr>
     [\<lparr>ptr = Some 0\<rparr>, \<lparr>ptr = Some 1\<rparr>]
   \<and> enable_if_holdable (type_of (VInt 4))
   \<and> (\<exists>b. operator_eq \<lparr>ptr = Some 0\<rparr> \<lparr>ptr = Some 1\<rparr>
            \<lparr>cells = [0 \<mapsto> \<lparr>obj = Holder (VInt 3), use_count = 1\<rparr>,
                      1 \<mapsto> \<lparr>obj = Holder (VString ''hi''), use_count = 1\<rparr>],
             next_free = 2\<rparr> = Inr b
          \<and> operator_ne \<lparr>ptr = Some 1\<rparr> \<lparr>ptr = Some 0\<rparr>
            \<lparr>cells = [0 \<mapsto> \<lparr>obj = Holder (VInt 3), use_count = 1\<rparr>,
                      1 \<mapsto> \<lparr>obj = Holder (VString ''hi''), use_count = 1\<rparr>],
             next_free = 2\<rparr> = Inr (\<not> b))
   \<and> (\<exists>b. operator_eq_val \<lparr>ptr = Some 0\<rparr> (VInt 4)
            \<lparr>cells = [0 \<mapsto> \<lparr>obj = Holder (VInt 3), use_count = 1\<rparr>,
                      1 \<mapsto> \<lparr>obj = Holder (VString ''hi''), use_count = 1\<rparr>],
             next_free = 2\<rparr> = Inr b
          \<and> val_operator_ne (VInt 4) \<lparr>ptr = Some 0\<rparr>
            \<lparr>cells = [0 \<mapsto> \<lparr>obj = Holder (VInt 3), use_count = 1\<rparr>,
                      1 \<mapsto> \<lparr>obj = Holder (VString ''hi''), use_count = 1\<rparr>],
             next_free = 2\<rparr> = Inr (\<not> b))"
proof -
  have a: "accounted
     \<lparr>cells = [0 \<mapsto> \<lparr>obj = Holder (VInt 3), use_count = 1\<rparr>,
               1 \<mapsto> \<lparr>obj = Holder (VString ''hi''), use_count = 1\<rparr>],
      next_free = 2\<rparr>
     [\<lparr>ptr = Some 0\<rparr>, \<lparr>ptr = Some 1\<rparr>]"
    by (simp add: accounted_def refs_def)
  have b: "enable_if_holdable (type_of (VInt 4))"
    by (simp add: enable_if_holdable_def)
  from C9_equality_total_and_mirrored [OF a b, of "Narrow ''hi''"] a b
  show ?thesis
    by blast
qed

section \<open>Move assignment\<close>

text \<open>
  Claim C10. After \<^verbatim>\<open>b = std::move(a)\<close>, that is \<open>sv_assign_move a b h\<close>, the
  moved-from handle \<open>a\<close> has the pointer \<open>b\<close> had and \<open>b\<close> has the one \<open>a\<close>
  had; the heap is as before, so no cell was released and \<open>a\<close> holds what \<open>b\<close>
  held; if \<open>b\<close> was not empty, \<open>a\<close> is not empty afterwards.
\<close>

theorem C10_move_assignment_swaps:
  "ptr (rhs_after (sv_assign_move a b h)) = ptr b
   \<and> ptr (this_after (sv_assign_move a b h)) = ptr a
   \<and> heap_after (sv_assign_move a b h) = h
   \<and> returned (sv_assign_move a b h) = Some (this_after (sv_assign_move a b h))
   \<and> held (heap_after (sv_assign_move a b h)) (rhs_after (sv_assign_move a b h)) = held h b
   \<and> (\<not> sv_empty b \<longrightarrow> \<not> sv_empty (rhs_after (sv_assign_move a b h)))"
  by (simp add: sv_assign_move_def Let_def held_def sv_empty_def)

text \<open>
  The theorem at \<open>b\<close> holding the \<^verbatim>\<open>int\<close> 3 and \<open>a\<close> holding the string
  \<^verbatim>\<open>"hi"\<close>.
\<close>

theorem C10_move_assignment_swaps_witness:
  "\<not> sv_empty \<lparr>ptr = Some 0\<rparr>
   \<and> rhs_after (sv_assign_move \<lparr>ptr = Some 1\<rparr> \<lparr>ptr = Some 0\<rparr>
        \<lparr>cells = [0 \<mapsto> \<lparr>obj = Holder (VInt 3), use_count = 1\<rparr>,
                  1 \<mapsto> \<lparr>obj = Holder (VString ''hi''), use_count = 1\<rparr>],
         next_free = 2\<rparr>) = \<lparr>ptr = Some 0\<rparr>
   \<and> \<not> sv_empty (rhs_after (sv_assign_move \<lparr>ptr = Some 1\<rparr> \<lparr>ptr = Some 0\<rparr>
        \<lparr>cells = [0 \<mapsto> \<lparr>obj = Holder (VInt 3), use_count = 1\<rparr>,
                  1 \<mapsto> \<lparr>obj = Holder (VString ''hi''), use_count = 1\<rparr>],
         next_free = 2\<rparr>))"
proof -
  have a: "\<not> sv_empty \<lparr>ptr = Some 0\<rparr>"
    by (simp add: sv_empty_def)
  from C10_move_assignment_swaps [of "\<lparr>ptr = Some 1\<rparr>" "\<lparr>ptr = Some 0\<rparr>"
      "\<lparr>cells = [0 \<mapsto> \<lparr>obj = Holder (VInt 3), use_count = 1\<rparr>,
                  1 \<mapsto> \<lparr>obj = Holder (VString ''hi''), use_count = 1\<rparr>],
         next_free = 2\<rparr>"] a
  show ?thesis
    by (cases "rhs_after (sv_assign_move \<lparr>ptr = Some 1\<rparr> \<lparr>ptr = Some 0\<rparr>
        \<lparr>cells = [0 \<mapsto> \<lparr>obj = Holder (VInt 3), use_count = 1\<rparr>,
                  1 \<mapsto> \<lparr>obj = Holder (VString ''hi''), use_count = 1\<rparr>],
         next_free = 2\<rparr>)") simp
qed

end
